theory Spec2Isabelle
  imports Main "HOL-Library.Word"
begin

section \<open>Solidity value types and reverts\<close>

type_synonym uint256 = "256 word"
type_synonym uint32 = "32 word"
type_synonym address = "160 word"
type_synonym bytes = "8 word list"

text \<open>
  In the FHE library \<^verbatim>\<open>euint32\<close> is a user-defined value type over \<^verbatim>\<open>bytes32\<close>: the
  contract stores and passes handles of ciphertexts, never plaintexts. The
  default value of an unwritten slot is the zero handle.
\<close>

type_synonym euint32 = "256 word"

text \<open>
  A call of the contract either returns or reverts. \<open>Require m\<close> is a failed
  \<^verbatim>\<open>require(cond, m)\<close>; \<open>Panic c\<close> is a compiler-inserted check of Solidity 0.8
  (\<open>0x11\<close> arithmetic overflow, \<open>0x32\<close> array index out of bounds);
  \<open>CheckSignaturesReverted\<close> is a revert inside \<^verbatim>\<open>FHE.checkSignatures\<close> and
  \<open>AbiDecodeReverted\<close> one inside \<^verbatim>\<open>abi.decode\<close>.
\<close>

datatype error =
    Require string
  | Panic nat
  | CheckSignaturesReverted
  | AbiDecodeReverted

section \<open>The ciphertext capability\<close>

text \<open>
  The library \<^verbatim>\<open>@fhevm/solidity/lib/FHE.sol\<close> and the built-in \<^verbatim>\<open>abi.decode\<close> are
  not part of the repository. The contract's functions take them as a
  parameter: the operations on handles, the signature check of a decryption
  callback (\<open>False\<close> where the library reverts) and the decoder of the
  callback's payload into a \<^verbatim>\<open>uint32[]\<close> (\<open>None\<close> where it reverts).
\<close>

record FHE =
  FHE_asEuint32 :: "uint32 \<Rightarrow> euint32"
  FHE_add :: "euint32 \<Rightarrow> euint32 \<Rightarrow> euint32"
  FHE_sub :: "euint32 \<Rightarrow> euint32 \<Rightarrow> euint32"
  FHE_checkSignatures :: "uint256 \<Rightarrow> bytes \<Rightarrow> bytes \<Rightarrow> bool"
  abi_decode :: "bytes \<Rightarrow> uint32 list option"

section \<open>Contract storage\<close>

record EncryptedCreditLine =
  lineId :: uint256
  bankAddress :: address
  encryptedAmount :: euint32
  encryptedUtilized :: euint32
  timestamp :: uint256
  isActive :: bool

record AggregatedResult =
  totalAvailable :: uint32
  totalUtilized :: uint32
  isRevealed :: bool

text \<open>
  A Solidity mapping is total: a key that was never written reads as the
  all-zero value.
\<close>

record CreditLineFHE =
  lineCount :: uint256
  encryptedLines :: "uint256 \<Rightarrow> EncryptedCreditLine"
  aggregatedResult :: AggregatedResult
  encryptedTotalAvailable :: euint32
  encryptedTotalUtilized :: euint32
  aggregator :: address
  enterprise :: address
  requestToAggregationId :: "uint256 \<Rightarrow> uint256"

definition zeroLine :: EncryptedCreditLine where
  "zeroLine = \<lparr>lineId = 0, bankAddress = 0, encryptedAmount = 0, encryptedUtilized = 0,
     timestamp = 0, isActive = False\<rparr>"

section \<open>The contract's functions\<close>

text \<open>
  Every function takes \<^verbatim>\<open>msg.sender\<close> (and \<^verbatim>\<open>block.timestamp\<close>, or the request id that
  \<^verbatim>\<open>FHE.requestDecryption\<close> returns, where the body reads them) and the storage,
  and returns the new storage or the revert. The modifiers \<^verbatim>\<open>onlyAggregator\<close> and
  \<^verbatim>\<open>onlyEnterprise\<close> are the first check of the functions that carry them. Events
  are not part of the storage and are left out. The parameter \<^verbatim>\<open>lineId\<close> is written
  \<open>lid\<close>, since \<open>lineId\<close> is the field of the record.
\<close>

definition constructor :: "FHE \<Rightarrow> address \<Rightarrow> address \<Rightarrow> CreditLineFHE" where
  "constructor fhe sender enterprise0 =
     \<lparr>lineCount = 0,
      encryptedLines = (\<lambda>_. zeroLine),
      aggregatedResult = \<lparr>totalAvailable = 0, totalUtilized = 0, isRevealed = False\<rparr>,
      encryptedTotalAvailable = FHE_asEuint32 fhe 0,
      encryptedTotalUtilized = FHE_asEuint32 fhe 0,
      aggregator = sender,
      enterprise = enterprise0,
      requestToAggregationId = (\<lambda>_. 0)\<rparr>"

definition updateAggregatedTotals :: "FHE \<Rightarrow> uint256 \<Rightarrow> CreditLineFHE \<Rightarrow> CreditLineFHE" where
  "updateAggregatedTotals fhe lid s =
     (let line = encryptedLines s lid in
      s\<lparr>encryptedTotalAvailable := FHE_add fhe (encryptedTotalAvailable s) (encryptedAmount line),
        encryptedTotalUtilized := FHE_add fhe (encryptedTotalUtilized s) (encryptedUtilized line)\<rparr>)"

definition addEncryptedCreditLine ::
  "FHE \<Rightarrow> address \<Rightarrow> uint256 \<Rightarrow> address \<Rightarrow> euint32 \<Rightarrow> euint32 \<Rightarrow> CreditLineFHE
     \<Rightarrow> error + CreditLineFHE" where
  "addEncryptedCreditLine fhe sender now bank encAmount encUtilized s =
     (if sender \<noteq> aggregator s then Inl (Require ''Caller not authorized'')
      else if lineCount s = - 1 then Inl (Panic 0x11)
      else
        let newLineId = lineCount s + 1;
            s1 = s\<lparr>lineCount := newLineId,
                   encryptedLines := (encryptedLines s)(newLineId :=
                     \<lparr>lineId = newLineId, bankAddress = bank, encryptedAmount = encAmount,
                      encryptedUtilized = encUtilized, timestamp = now, isActive = True\<rparr>)\<rparr>
        in Inr (updateAggregatedTotals fhe newLineId s1))"

definition requestAggregation :: "address \<Rightarrow> uint256 \<Rightarrow> CreditLineFHE \<Rightarrow> error + CreditLineFHE" where
  "requestAggregation sender reqId s =
     (if sender \<noteq> enterprise s then Inl (Require ''Enterprise only'')
      else if isRevealed (aggregatedResult s) then Inl (Require ''Already revealed'')
      else Inr (s\<lparr>requestToAggregationId := (requestToAggregationId s)(reqId := 1)\<rparr>))"

definition handleAggregationResult ::
  "FHE \<Rightarrow> uint256 \<Rightarrow> bytes \<Rightarrow> bytes \<Rightarrow> CreditLineFHE \<Rightarrow> error + CreditLineFHE" where
  "handleAggregationResult fhe requestId cleartexts decryptionProof s =
     (if requestToAggregationId s requestId \<noteq> 1 then Inl (Require ''Invalid request'')
      else if isRevealed (aggregatedResult s) then Inl (Require ''Already revealed'')
      else if \<not> FHE_checkSignatures fhe requestId cleartexts decryptionProof then Inl CheckSignaturesReverted
      else
        case abi_decode fhe cleartexts of
          None \<Rightarrow> Inl AbiDecodeReverted
        | Some results \<Rightarrow>
            (case results of
               r0 # r1 # _ \<Rightarrow>
                 Inr (s\<lparr>aggregatedResult :=
                        \<lparr>totalAvailable = r0, totalUtilized = r1, isRevealed = True\<rparr>\<rparr>)
             | _ \<Rightarrow> Inl (Panic 0x32)))"

definition getAggregationResult ::
  "address \<Rightarrow> CreditLineFHE \<Rightarrow> error + (uint32 \<times> uint32 \<times> bool)" where
  "getAggregationResult sender s =
     (if sender \<noteq> enterprise s then Inl (Require ''Enterprise only'')
      else Inr (totalAvailable (aggregatedResult s), totalUtilized (aggregatedResult s),
                isRevealed (aggregatedResult s)))"

definition deactivateCreditLine ::
  "FHE \<Rightarrow> address \<Rightarrow> uint256 \<Rightarrow> CreditLineFHE \<Rightarrow> error + CreditLineFHE" where
  "deactivateCreditLine fhe sender lid s =
     (if sender \<noteq> aggregator s then Inl (Require ''Caller not authorized'')
      else if \<not> isActive (encryptedLines s lid) then Inl (Require ''Line already inactive'')
      else
        let line = encryptedLines s lid in
        Inr (s\<lparr>encryptedTotalAvailable :=
                 FHE_sub fhe (encryptedTotalAvailable s) (encryptedAmount line),
               encryptedTotalUtilized :=
                 FHE_sub fhe (encryptedTotalUtilized s) (encryptedUtilized line),
               encryptedLines := (encryptedLines s)(lid := line\<lparr>isActive := False\<rparr>)\<rparr>))"

definition getCreditLineInfo ::
  "address \<Rightarrow> uint256 \<Rightarrow> CreditLineFHE \<Rightarrow> error + (address \<times> uint256 \<times> bool)" where
  "getCreditLineInfo sender lid s =
     (if sender \<noteq> enterprise s then Inl (Require ''Enterprise only'')
      else
        let line = encryptedLines s lid in
        Inr (bankAddress line, timestamp line, isActive line))"

definition transferEnterpriseOwnership ::
  "address \<Rightarrow> address \<Rightarrow> CreditLineFHE \<Rightarrow> error + CreditLineFHE" where
  "transferEnterpriseOwnership sender newEnterprise s =
     (if sender \<noteq> enterprise s then Inl (Require ''Enterprise only'')
      else Inr (s\<lparr>enterprise := newEnterprise\<rparr>))"

section \<open>Transactions\<close>

text \<open>
  The state-changing external functions as calls, with what the chain supplies to
  a transaction: the sender, the block's timestamp and, for a decryption
  request, the id the oracle hands back.
\<close>

datatype call =
    AddEncryptedCreditLine address euint32 euint32
  | RequestAggregation
  | HandleAggregationResult uint256 bytes bytes
  | DeactivateCreditLine uint256
  | TransferEnterpriseOwnership address

record tx_env =
  msg_sender :: address
  block_timestamp :: uint256
  decryption_requestId :: uint256

fun dispatch :: "FHE \<Rightarrow> tx_env \<Rightarrow> call \<Rightarrow> CreditLineFHE \<Rightarrow> error + CreditLineFHE" where
  "dispatch fhe e (AddEncryptedCreditLine bank a u) s =
     addEncryptedCreditLine fhe (msg_sender e) (block_timestamp e) bank a u s"
| "dispatch fhe e RequestAggregation s =
     requestAggregation (msg_sender e) (decryption_requestId e) s"
| "dispatch fhe e (HandleAggregationResult rid ct decryptionProof) s =
     handleAggregationResult fhe rid ct decryptionProof s"
| "dispatch fhe e (DeactivateCreditLine lid) s =
     deactivateCreditLine fhe (msg_sender e) lid s"
| "dispatch fhe e (TransferEnterpriseOwnership a) s =
     transferEnterpriseOwnership (msg_sender e) a s"

text \<open>
  A transaction that reverts leaves the storage as it was: the EVM discards
  every write of a reverted call.
\<close>

definition transact :: "FHE \<Rightarrow> tx_env \<times> call \<Rightarrow> CreditLineFHE \<Rightarrow> CreditLineFHE" where
  "transact fhe t s = (case dispatch fhe (fst t) (snd t) s of Inl _ \<Rightarrow> s | Inr s' \<Rightarrow> s')"

fun run :: "FHE \<Rightarrow> (tx_env \<times> call) list \<Rightarrow> CreditLineFHE \<Rightarrow> CreditLineFHE" where
  "run fhe [] s = s"
| "run fhe (t # ts) s = run fhe ts (transact fhe t s)"

inductive reachable :: "FHE \<Rightarrow> CreditLineFHE \<Rightarrow> bool" for fhe :: FHE where
  deployed: "reachable fhe (constructor fhe deployer enterprise0)"
| called: "reachable fhe s \<Longrightarrow> dispatch fhe e c s = Inr s' \<Longrightarrow> reachable fhe s'"

section \<open>What the ciphertexts mean\<close>

text \<open>
  The plaintext behind a handle is not visible to the contract; \<open>dec\<close> stands for
  it. The capability is homomorphic for \<open>dec\<close> when its operations are the
  images of the 32-bit (wrapping) arithmetic of \<^verbatim>\<open>euint32\<close>.
\<close>

definition homomorphic :: "FHE \<Rightarrow> (euint32 \<Rightarrow> uint32) \<Rightarrow> bool" where
  "homomorphic fhe dec \<longleftrightarrow>
     dec (FHE_asEuint32 fhe 0) = 0 \<and>
     (\<forall>a b. dec (FHE_add fhe a b) = dec a + dec b) \<and>
     (\<forall>a b. dec (FHE_sub fhe a b) = dec a - dec b)"

text \<open>
  The sum of the plaintexts of one ciphertext field over all records whose
  \<open>isActive\<close> flag is set.
\<close>

definition activeTotal ::
  "(euint32 \<Rightarrow> uint32) \<Rightarrow> (EncryptedCreditLine \<Rightarrow> euint32) \<Rightarrow> CreditLineFHE \<Rightarrow> uint32" where
  "activeTotal dec fld s =
     (\<Sum>i \<in> {i. isActive (encryptedLines s i)}. dec (fld (encryptedLines s i)))"

section \<open>Invariants of the storage\<close>

text \<open>
  Line ids are handed out from 1 upwards: a record with the \<open>isActive\<close> flag has
  an id between 1 and \<open>lineCount\<close>.
\<close>

definition linesBounded :: "CreditLineFHE \<Rightarrow> bool" where
  "linesBounded s \<longleftrightarrow> (\<forall>i. isActive (encryptedLines s i) \<longrightarrow> i \<noteq> 0 \<and> i \<le> lineCount s)"

definition totalsAgree :: "(euint32 \<Rightarrow> uint32) \<Rightarrow> CreditLineFHE \<Rightarrow> bool" where
  "totalsAgree dec s \<longleftrightarrow>
     dec (encryptedTotalAvailable s) = activeTotal dec encryptedAmount s \<and>
     dec (encryptedTotalUtilized s) = activeTotal dec encryptedUtilized s"

text \<open>Until a result is published the stored result is the all-zero value.\<close>

definition unrevealedZero :: "CreditLineFHE \<Rightarrow> bool" where
  "unrevealedZero s \<longleftrightarrow>
     (\<not> isRevealed (aggregatedResult s) \<longrightarrow>
        totalAvailable (aggregatedResult s) = 0 \<and> totalUtilized (aggregatedResult s) = 0)"

section \<open>A plaintext capability and example transactions\<close>

text \<open>
  Modelled from the spec: the ciphertext capability is an external library;
  section 9 of the specification describes the fake capability that does plaintext
  add, subtract and decrypt, for deterministic tests. Here a handle carries its
  32-bit plaintext, a decryption proof is the one byte of the request id, and the
  payload is a sequence of big-endian 4-byte values.
\<close>

fun be32_decode :: "bytes \<Rightarrow> uint32 list option" where
  "be32_decode [] = Some []"
| "be32_decode (a # b # c # d # rest) =
     map_option (\<lambda>vs. (ucast a * 16777216 + ucast b * 65536 + ucast c * 256 + ucast d) # vs)
       (be32_decode rest)"
| "be32_decode _ = None"

definition fake_dec :: "euint32 \<Rightarrow> uint32" where
  "fake_dec h = ucast h"

definition fake_fhe :: FHE where
  "fake_fhe =
     \<lparr>FHE_asEuint32 = ucast,
      FHE_add = (\<lambda>a b. ucast (fake_dec a + fake_dec b)),
      FHE_sub = (\<lambda>a b. ucast (fake_dec a - fake_dec b)),
      FHE_checkSignatures = (\<lambda>rid ct pf. pf = [ucast rid]),
      abi_decode = be32_decode\<rparr>"

text \<open>
  The aggregator is address 1 and the enterprise address 2; address 9 holds no
  role. The oracle answers the enterprise's two requests with the ids 7 and 8.
\<close>

definition by_aggregator :: tx_env where
  "by_aggregator = \<lparr>msg_sender = 1, block_timestamp = 1000, decryption_requestId = 0\<rparr>"

definition by_enterprise :: tx_env where
  "by_enterprise = \<lparr>msg_sender = 2, block_timestamp = 2000, decryption_requestId = 7\<rparr>"

definition by_enterprise_again :: tx_env where
  "by_enterprise_again = \<lparr>msg_sender = 2, block_timestamp = 2100, decryption_requestId = 8\<rparr>"

definition by_stranger :: tx_env where
  "by_stranger = \<lparr>msg_sender = 9, block_timestamp = 3000, decryption_requestId = 0\<rparr>"

definition payload_800_150 :: bytes where
  "payload_800_150 = [0, 0, 3, 0x20, 0, 0, 0, 0x96]"

definition st_deployed :: CreditLineFHE where
  "st_deployed = constructor fake_fhe 1 2"

definition st_two_lines :: CreditLineFHE where
  "st_two_lines =
     run fake_fhe
       [(by_aggregator, AddEncryptedCreditLine 11 500 100),
        (by_aggregator, AddEncryptedCreditLine 12 300 50)] st_deployed"

definition st_requested :: CreditLineFHE where
  "st_requested = run fake_fhe [(by_enterprise, RequestAggregation)] st_two_lines"

definition st_two_requests :: CreditLineFHE where
  "st_two_requests = run fake_fhe [(by_enterprise_again, RequestAggregation)] st_requested"

definition st_line_then_request :: CreditLineFHE where
  "st_line_then_request =
     run fake_fhe
       [(by_aggregator, AddEncryptedCreditLine 13 40 4),
        (by_enterprise_again, RequestAggregation)] st_requested"

definition st_revealed :: CreditLineFHE where
  "st_revealed =
     run fake_fhe [(by_stranger, HandleAggregationResult 7 payload_800_150 [7])] st_requested"

definition st_deactivated :: CreditLineFHE where
  "st_deactivated =
     run fake_fhe
       [(by_aggregator, AddEncryptedCreditLine 11 500 100),
        (by_aggregator, DeactivateCreditLine 1)] st_deployed"

section \<open>Sums over the active records\<close>

lemma activeTotal_insert:
  assumes upd: "encryptedLines s' = (encryptedLines s)(n := L)"
    and new: "isActive L" and old: "\<not> isActive (encryptedLines s n)"
  shows "activeTotal dec fld s' = activeTotal dec fld s + dec (fld L)"
proof -
  let ?A = "{i. isActive (encryptedLines s i)}"
  have set_eq: "{i. isActive (encryptedLines s' i)} = insert n ?A"
    using upd new by auto
  have notin: "n \<notin> ?A" using old by simp
  have "activeTotal dec fld s' = (\<Sum>i \<in> insert n ?A. dec (fld (encryptedLines s' i)))"
    by (simp add: activeTotal_def set_eq)
  also have "\<dots> = dec (fld (encryptedLines s' n)) + (\<Sum>i \<in> ?A. dec (fld (encryptedLines s' i)))"
    using notin by (simp add: sum.insert)
  also have "(\<Sum>i \<in> ?A. dec (fld (encryptedLines s' i))) = (\<Sum>i \<in> ?A. dec (fld (encryptedLines s i)))"
    using notin upd by (intro sum.cong) auto
  finally show ?thesis using upd by (simp add: activeTotal_def)
qed

lemma activeTotal_remove:
  assumes upd: "encryptedLines s' = (encryptedLines s)(n := L)"
    and new: "\<not> isActive L" and old: "isActive (encryptedLines s n)"
  shows "activeTotal dec fld s' = activeTotal dec fld s - dec (fld (encryptedLines s n))"
proof -
  let ?A = "{i. isActive (encryptedLines s i)}"
  have set_eq: "{i. isActive (encryptedLines s' i)} = ?A - {n}"
    using upd new by auto
  have inA: "n \<in> ?A" using old by simp
  have "activeTotal dec fld s' = (\<Sum>i \<in> ?A - {n}. dec (fld (encryptedLines s' i)))"
    by (simp add: activeTotal_def set_eq)
  also have "\<dots> = (\<Sum>i \<in> ?A - {n}. dec (fld (encryptedLines s i)))"
    using upd by (intro sum.cong) auto
  also have "\<dots> = (\<Sum>i \<in> ?A. dec (fld (encryptedLines s i))) - dec (fld (encryptedLines s n))"
    using inA by (simp add: sum_diff1)
  finally show ?thesis by (simp add: activeTotal_def)
qed

lemma word_succ_fresh: "(n :: uint256) \<noteq> - 1 \<Longrightarrow> i \<le> n \<Longrightarrow> i \<noteq> n + 1"
  by (metis inc_less_eq_triv_imp)

lemma word_succ_mono: "(n :: uint256) \<noteq> - 1 \<Longrightarrow> i \<le> n \<Longrightarrow> i \<le> n + 1"
  by (meson inc_less_eq_triv_imp nle_le order.trans)

lemma word_succ_nonzero: "(n :: uint256) \<noteq> - 1 \<Longrightarrow> n + 1 \<noteq> 0"
  by (simp add: eq_neg_iff_add_eq_0)

lemma linesBounded_constructor: "linesBounded (constructor fhe d e)"
  by (simp add: linesBounded_def constructor_def zeroLine_def)

lemma linesBounded_dispatch:
  assumes "linesBounded s" and "dispatch fhe e c s = Inr s'"
  shows "linesBounded s'"
proof (cases c)
  case (AddEncryptedCreditLine bank a u)
  with assms show ?thesis
    by (auto simp: linesBounded_def addEncryptedCreditLine_def updateAggregatedTotals_def Let_def
        word_succ_nonzero word_succ_mono split: if_splits)
next
  case RequestAggregation
  with assms show ?thesis
    by (auto simp: linesBounded_def requestAggregation_def split: if_splits)
next
  case (HandleAggregationResult rid ct pf)
  with assms show ?thesis
    by (auto simp: linesBounded_def handleAggregationResult_def
        split: if_splits option.splits list.splits)
next
  case (DeactivateCreditLine lid)
  with assms show ?thesis
    by (auto simp: linesBounded_def deactivateCreditLine_def Let_def split: if_splits)
next
  case (TransferEnterpriseOwnership a)
  with assms show ?thesis
    by (auto simp: linesBounded_def transferEnterpriseOwnership_def split: if_splits)
qed

lemma reachable_linesBounded: "reachable fhe s \<Longrightarrow> linesBounded s"
  by (induction rule: reachable.induct) (auto intro: linesBounded_constructor linesBounded_dispatch)

lemma totalsAgree_constructor:
  "homomorphic fhe dec \<Longrightarrow> totalsAgree dec (constructor fhe d e)"
  by (simp add: totalsAgree_def homomorphic_def constructor_def activeTotal_def zeroLine_def)

lemma totalsAgree_add:
  assumes hom: "homomorphic fhe dec" and b: "linesBounded s" and t: "totalsAgree dec s"
    and ok: "addEncryptedCreditLine fhe sender now bank a u s = Inr s'"
  shows "totalsAgree dec s'"
proof -
  let ?n = "lineCount s + 1"
  let ?L = "\<lparr>lineId = ?n, bankAddress = bank, encryptedAmount = a,
              encryptedUtilized = u, timestamp = now, isActive = True\<rparr>"
  from ok have nomax: "lineCount s \<noteq> - 1"
    by (auto simp: addEncryptedCreditLine_def split: if_splits)
  from ok have lines: "encryptedLines s' = (encryptedLines s)(?n := ?L)"
    by (auto simp: addEncryptedCreditLine_def updateAggregatedTotals_def Let_def split: if_splits)
  from ok have av: "encryptedTotalAvailable s' = FHE_add fhe (encryptedTotalAvailable s) a"
    and ut: "encryptedTotalUtilized s' = FHE_add fhe (encryptedTotalUtilized s) u"
    by (auto simp: addEncryptedCreditLine_def updateAggregatedTotals_def Let_def split: if_splits)
  have fresh: "\<not> isActive (encryptedLines s ?n)"
    using b nomax word_succ_fresh unfolding linesBounded_def by blast
  have "activeTotal dec encryptedAmount s' = activeTotal dec encryptedAmount s + dec a"
    using activeTotal_insert [OF lines _ fresh, of dec encryptedAmount] by simp
  moreover have "activeTotal dec encryptedUtilized s' = activeTotal dec encryptedUtilized s + dec u"
    using activeTotal_insert [OF lines _ fresh, of dec encryptedUtilized] by simp
  ultimately show ?thesis
    using hom t av ut by (simp add: totalsAgree_def homomorphic_def)
qed

lemma totalsAgree_deactivate:
  assumes hom: "homomorphic fhe dec" and t: "totalsAgree dec s"
    and ok: "deactivateCreditLine fhe sender lid s = Inr s'"
  shows "totalsAgree dec s'"
proof -
  let ?L = "(encryptedLines s lid)\<lparr>isActive := False\<rparr>"
  from ok have act: "isActive (encryptedLines s lid)"
    by (auto simp: deactivateCreditLine_def split: if_splits)
  from ok have lines: "encryptedLines s' = (encryptedLines s)(lid := ?L)"
    by (auto simp: deactivateCreditLine_def Let_def split: if_splits)
  from ok have av: "encryptedTotalAvailable s' =
      FHE_sub fhe (encryptedTotalAvailable s) (encryptedAmount (encryptedLines s lid))"
    and ut: "encryptedTotalUtilized s' =
      FHE_sub fhe (encryptedTotalUtilized s) (encryptedUtilized (encryptedLines s lid))"
    by (auto simp: deactivateCreditLine_def Let_def split: if_splits)
  have "activeTotal dec encryptedAmount s' =
      activeTotal dec encryptedAmount s - dec (encryptedAmount (encryptedLines s lid))"
    using activeTotal_remove [OF lines _ act, of dec encryptedAmount] by simp
  moreover have "activeTotal dec encryptedUtilized s' =
      activeTotal dec encryptedUtilized s - dec (encryptedUtilized (encryptedLines s lid))"
    using activeTotal_remove [OF lines _ act, of dec encryptedUtilized] by simp
  ultimately show ?thesis
    using hom t av ut by (simp add: totalsAgree_def homomorphic_def)
qed

lemma totalsAgree_dispatch:
  assumes hom: "homomorphic fhe dec" and b: "linesBounded s" and t: "totalsAgree dec s"
    and ok: "dispatch fhe e c s = Inr s'"
  shows "totalsAgree dec s'"
proof (cases c)
  case (AddEncryptedCreditLine bank a u)
  with ok totalsAgree_add [OF hom b t] show ?thesis by simp
next
  case RequestAggregation
  with ok t show ?thesis
    by (auto simp: totalsAgree_def activeTotal_def requestAggregation_def split: if_splits)
next
  case (HandleAggregationResult rid ct pf)
  with ok t show ?thesis
    by (auto simp: totalsAgree_def activeTotal_def handleAggregationResult_def
        split: if_splits option.splits list.splits)
next
  case (DeactivateCreditLine lid)
  with ok totalsAgree_deactivate [OF hom t] show ?thesis by simp
next
  case (TransferEnterpriseOwnership a)
  with ok t show ?thesis
    by (auto simp: totalsAgree_def activeTotal_def transferEnterpriseOwnership_def split: if_splits)
qed


section \<open>Runs of transactions\<close>

lemmas fun_defs = addEncryptedCreditLine_def updateAggregatedTotals_def requestAggregation_def
  handleAggregationResult_def deactivateCreditLine_def transferEnterpriseOwnership_def

lemmas demo_defs = st_deployed_def st_two_lines_def st_requested_def st_revealed_def
  st_deactivated_def by_aggregator_def by_enterprise_def by_enterprise_again_def by_stranger_def
  payload_800_150_def fake_fhe_def fake_dec_def constructor_def zeroLine_def transact_def

lemma transact_cases:
  "(\<exists>err. dispatch fhe e c s = Inl err \<and> transact fhe (e, c) s = s) \<or>
   dispatch fhe e c s = Inr (transact fhe (e, c) s)"
  by (cases "dispatch fhe e c s") (simp_all add: transact_def)

lemma reachable_transact: "reachable fhe s \<Longrightarrow> reachable fhe (transact fhe t s)"
proof -
  assume r: "reachable fhe s"
  obtain e c where t: "t = (e, c)" by (cases t)
  from transact_cases [of fhe e c s] show ?thesis
  proof
    assume "\<exists>err. dispatch fhe e c s = Inl err \<and> transact fhe (e, c) s = s"
    with r t show ?thesis by auto
  next
    assume "dispatch fhe e c s = Inr (transact fhe (e, c) s)"
    with r t show ?thesis by (auto intro: reachable.called)
  qed
qed

lemma reachable_run: "reachable fhe s \<Longrightarrow> reachable fhe (run fhe ts s)"
  by (induction ts arbitrary: s) (simp_all add: reachable_transact)

lemma fake_homomorphic: "homomorphic fake_fhe fake_dec"
  by (simp add: homomorphic_def fake_fhe_def fake_dec_def ucast_up_ucast_id is_up)

lemma st_deployed_reachable: "reachable fake_fhe st_deployed"
  unfolding st_deployed_def by (rule reachable.deployed)

lemma st_two_lines_reachable: "reachable fake_fhe st_two_lines"
  unfolding st_two_lines_def by (rule reachable_run [OF st_deployed_reachable])

lemma st_requested_reachable: "reachable fake_fhe st_requested"
  unfolding st_requested_def by (rule reachable_run [OF st_two_lines_reachable])

lemma st_revealed_reachable: "reachable fake_fhe st_revealed"
  unfolding st_revealed_def by (rule reachable_run [OF st_requested_reachable])

lemma st_deactivated_reachable: "reachable fake_fhe st_deactivated"
  unfolding st_deactivated_def by (rule reachable_run [OF st_deployed_reachable])

subsection \<open>Request ids stay registered\<close>

lemma dispatch_keeps_request:
  assumes "dispatch fhe e c s = Inr s'" and "requestToAggregationId s r = 1"
  shows "requestToAggregationId s' r = 1"
  using assms
  by (cases c) (auto simp: fun_defs Let_def split: if_splits option.splits list.splits)

lemma transact_keeps_request:
  "requestToAggregationId s r = 1 \<Longrightarrow> requestToAggregationId (transact fhe t s) r = 1"
  using transact_cases [of fhe "fst t" "snd t" s] dispatch_keeps_request [of fhe "fst t" "snd t" s]
  by auto

lemma run_keeps_request:
  "requestToAggregationId s r = 1 \<Longrightarrow> requestToAggregationId (run fhe ts s) r = 1"
  by (induction ts arbitrary: s) (simp_all add: transact_keeps_request)

subsection \<open>A published result stays\<close>

lemma dispatch_keeps_revealed:
  assumes "dispatch fhe e c s = Inr s'" and "isRevealed (aggregatedResult s)"
  shows "aggregatedResult s' = aggregatedResult s"
  using assms
  by (cases c) (auto simp: fun_defs Let_def split: if_splits option.splits list.splits)

lemma transact_keeps_revealed:
  "isRevealed (aggregatedResult s) \<Longrightarrow> aggregatedResult (transact fhe t s) = aggregatedResult s"
  using transact_cases [of fhe "fst t" "snd t" s] dispatch_keeps_revealed [of fhe "fst t" "snd t" s]
  by auto

lemma run_keeps_revealed:
  "isRevealed (aggregatedResult s) \<Longrightarrow> aggregatedResult (run fhe ts s) = aggregatedResult s"
  by (induction ts arbitrary: s) (simp_all add: transact_keeps_revealed)

subsection \<open>The stored result before publication\<close>

lemma unrevealedZero_dispatch:
  assumes "dispatch fhe e c s = Inr s'" and "unrevealedZero s"
  shows "unrevealedZero s'"
  using assms
  by (cases c)
     (auto simp: unrevealedZero_def fun_defs Let_def split: if_splits option.splits list.splits)

lemma reachable_unrevealedZero: "reachable fhe s \<Longrightarrow> unrevealedZero s"
proof (induction rule: reachable.induct)
  case (deployed deployer enterprise0)
  show ?case by (simp add: unrevealedZero_def constructor_def)
next
  case (called s e c s')
  then show ?case by (auto intro: unrevealedZero_dispatch)
qed

subsection \<open>Outcomes of the callback\<close>

lemma callback_accepted:
  assumes "requestToAggregationId s rid = 1" and "\<not> isRevealed (aggregatedResult s)"
    and "FHE_checkSignatures fhe rid ct pf" and "abi_decode fhe ct = Some (r0 # r1 # rest)"
  shows "handleAggregationResult fhe rid ct pf s =
           Inr (s\<lparr>aggregatedResult :=
                  \<lparr>totalAvailable = r0, totalUtilized = r1, isRevealed = True\<rparr>\<rparr>)"
  using assms by (simp add: handleAggregationResult_def)

lemma callback_after_reveal:
  assumes "requestToAggregationId s rid = 1" and "isRevealed (aggregatedResult s)"
  shows "handleAggregationResult fhe rid ct pf s = Inl (Require ''Already revealed'')"
  using assms by (simp add: handleAggregationResult_def)

lemma callback_registered:
  assumes "requestToAggregationId s rid = 1"
  shows "handleAggregationResult fhe rid ct pf s \<noteq> Inl (Require ''Invalid request'')"
  using assms by (simp add: handleAggregationResult_def split: option.splits list.splits)

lemma callback_success:
  assumes "handleAggregationResult fhe rid ct pf s = Inr s'"
  shows "isRevealed (aggregatedResult s')" and "requestToAggregationId s' = requestToAggregationId s"
    and "\<not> isRevealed (aggregatedResult s)"
  using assms
  by (auto simp: handleAggregationResult_def split: if_splits option.splits list.splits)

lemma request_success:
  assumes "requestAggregation sender r s = Inr s'"
  shows "requestToAggregationId s' = (requestToAggregationId s)(r := 1)"
  using assms by (auto simp: requestAggregation_def split: if_splits)

section \<open>The claims\<close>

text \<open>
  C1. In every reachable state of the contract, under a capability that is
  homomorphic for the decryption \<open>dec\<close>, the accumulator
  \<open>encryptedTotalAvailable\<close> decrypts to the sum of the decrypted
  \<open>encryptedAmount\<close> over all records with \<open>isActive\<close> set, and
  \<open>encryptedTotalUtilized\<close> to the sum of the decrypted \<open>encryptedUtilized\<close>
  over the same records. Sums are in the 32-bit arithmetic of \<^verbatim>\<open>euint32\<close>. The
  states right after a successful \<open>addEncryptedCreditLine\<close> or
  \<open>deactivateCreditLine\<close> are reachable states.
\<close>

theorem accumulators_equal_active_sums:
  assumes "homomorphic fhe dec" and "reachable fhe s"
  shows "dec (encryptedTotalAvailable s) = activeTotal dec encryptedAmount s \<and>
         dec (encryptedTotalUtilized s) = activeTotal dec encryptedUtilized s"
proof -
  from assms(2) have "totalsAgree dec s"
  proof (induction rule: reachable.induct)
    case (deployed deployer enterprise0)
    show ?case by (rule totalsAgree_constructor [OF assms(1)])
  next
    case (called s e c s')
    then show ?case
      using totalsAgree_dispatch [OF assms(1) reachable_linesBounded] by blast
  qed
  then show ?thesis by (simp add: totalsAgree_def)
qed

theorem accumulators_equal_active_sums_witness:
  "homomorphic fake_fhe fake_dec \<and> reachable fake_fhe st_two_lines \<and>
   fake_dec (encryptedTotalAvailable st_two_lines) = 800 \<and>
   activeTotal fake_dec encryptedAmount st_two_lines = 800 \<and>
   fake_dec (encryptedTotalUtilized st_two_lines) = 150 \<and>
   activeTotal fake_dec encryptedUtilized st_two_lines = 150"
proof -
  have av: "fake_dec (encryptedTotalAvailable st_two_lines) = 800"
    and ut: "fake_dec (encryptedTotalUtilized st_two_lines) = 150"
    by (simp_all add: demo_defs fun_defs Let_def)
  from accumulators_equal_active_sums [OF fake_homomorphic st_two_lines_reachable] av ut
  show ?thesis
    using fake_homomorphic st_two_lines_reachable by simp
qed

text \<open>
  C2 (as stated). The claim says that a second \<open>requestAggregation\<close> by the
  enterprise, made while the first request is not yet fulfilled, fails. In the
  example the enterprise requests twice in a row: both calls return, and both
  request ids (7 and 8) are registered afterwards.
\<close>

theorem second_request_succeeds_counterexample:
  "enterprise st_two_lines = 2 \<and>
   requestAggregation 2 7 st_two_lines = Inr st_requested \<and>
   \<not> isRevealed (aggregatedResult st_requested) \<and>
   requestAggregation 2 8 st_requested = Inr st_two_requests \<and>
   requestToAggregationId st_two_requests 7 = 1 \<and>
   requestToAggregationId st_two_requests 8 = 1"
  by (simp add: st_two_requests_def demo_defs fun_defs Let_def)

text \<open>
  C2 (amended). \<open>requestAggregation\<close> keeps no record of a pending request.
  After one request has succeeded, and whatever transactions follow, a further
  \<open>requestAggregation\<close> by the enterprise succeeds as long as no result is
  published: it registers the new request id, and the earlier id stays registered,
  so several decryption requests can be outstanding. The call fails only once a
  result is published, with ``Already revealed''.
\<close>

theorem further_request_while_pending:
  assumes "requestAggregation sender r1 s = Inr s1" and "s2 = run fhe txs s1"
  shows "requestToAggregationId s2 r1 = 1 \<and>
         requestAggregation (enterprise s2) r2 s2 =
           (if isRevealed (aggregatedResult s2) then Inl (Require ''Already revealed'')
            else Inr (s2\<lparr>requestToAggregationId := (requestToAggregationId s2)(r2 := 1)\<rparr>))"
proof -
  from assms(1) have "requestToAggregationId s1 r1 = 1"
    by (auto simp: requestAggregation_def split: if_splits)
  then have "requestToAggregationId s2 r1 = 1"
    unfolding assms(2) by (rule run_keeps_request)
  then show ?thesis by (simp add: requestAggregation_def)
qed

theorem further_request_while_pending_witness:
  "requestAggregation 2 7 st_two_lines = Inr st_requested \<and>
   requestToAggregationId
     (run fake_fhe [(by_aggregator, AddEncryptedCreditLine 13 1 1)] st_requested) 7 = 1 \<and>
   requestAggregation 2 8
     (run fake_fhe [(by_aggregator, AddEncryptedCreditLine 13 1 1)] st_requested) =
   Inr ((run fake_fhe [(by_aggregator, AddEncryptedCreditLine 13 1 1)] st_requested)
     \<lparr>requestToAggregationId :=
        (requestToAggregationId
           (run fake_fhe [(by_aggregator, AddEncryptedCreditLine 13 1 1)] st_requested))(8 := 1)\<rparr>)"
proof -
  have first: "requestAggregation 2 7 st_two_lines = Inr st_requested"
    by (simp add: demo_defs fun_defs Let_def)
  have ent: "enterprise (run fake_fhe [(by_aggregator, AddEncryptedCreditLine 13 1 1)] st_requested) = 2"
    and unrev: "\<not> isRevealed (aggregatedResult
        (run fake_fhe [(by_aggregator, AddEncryptedCreditLine 13 1 1)] st_requested))"
    by (simp_all add: demo_defs fun_defs Let_def)
  from further_request_while_pending [OF first refl,
      of fake_fhe "[(by_aggregator, AddEncryptedCreditLine 13 1 1)]" 8]
  show ?thesis using first ent unrev by simp
qed

text \<open>
  C3. Once the stored result has \<open>isRevealed\<close> set, it never changes again:
  after any sequence of transactions (successful or reverted) the
  \<open>aggregatedResult\<close> is the same, every further \<open>handleAggregationResult\<close>
  reverts (``Invalid request'' or ``Already revealed'') and every further
  \<open>requestAggregation\<close> reverts (``Enterprise only'' or ``Already revealed''), so
  no second result is published.
\<close>

theorem published_result_is_final:
  assumes "isRevealed (aggregatedResult s)"
  shows "aggregatedResult (run fhe txs s) = aggregatedResult s \<and>
         handleAggregationResult fhe rid ct pf (run fhe txs s)
           \<in> {Inl (Require ''Invalid request''), Inl (Require ''Already revealed'')} \<and>
         requestAggregation sender r (run fhe txs s)
           \<in> {Inl (Require ''Enterprise only''), Inl (Require ''Already revealed'')}"
proof -
  have same: "aggregatedResult (run fhe txs s) = aggregatedResult s"
    using assms by (rule run_keeps_revealed)
  then have "isRevealed (aggregatedResult (run fhe txs s))"
    using assms by simp
  then show ?thesis
    using same by (simp add: handleAggregationResult_def requestAggregation_def)
qed

theorem published_result_is_final_witness:
  "isRevealed (aggregatedResult st_revealed) \<and>
   aggregatedResult
     (run fake_fhe
        [(by_aggregator, AddEncryptedCreditLine 13 40 4),
         (by_stranger, HandleAggregationResult 7 [0, 0, 0, 1, 0, 0, 0, 2] [7]),
         (by_enterprise_again, RequestAggregation)] st_revealed) =
     \<lparr>totalAvailable = 800, totalUtilized = 150, isRevealed = True\<rparr> \<and>
   handleAggregationResult fake_fhe 7 [0, 0, 0, 1, 0, 0, 0, 2] [7]
     (run fake_fhe
        [(by_aggregator, AddEncryptedCreditLine 13 40 4),
         (by_stranger, HandleAggregationResult 7 [0, 0, 0, 1, 0, 0, 0, 2] [7]),
         (by_enterprise_again, RequestAggregation)] st_revealed) =
     Inl (Require ''Already revealed'')"
proof -
  let ?txs = "[(by_aggregator, AddEncryptedCreditLine 13 40 4),
               (by_stranger, HandleAggregationResult 7 [0, 0, 0, 1, 0, 0, 0, 2] [7]),
               (by_enterprise_again, RequestAggregation)]"
  have rev: "isRevealed (aggregatedResult st_revealed)"
    and res: "aggregatedResult st_revealed =
      \<lparr>totalAvailable = 800, totalUtilized = 150, isRevealed = True\<rparr>"
    and reg: "requestToAggregationId st_revealed 7 = 1"
    by (simp_all add: demo_defs fun_defs Let_def)
  have same: "aggregatedResult (run fake_fhe ?txs st_revealed) = aggregatedResult st_revealed"
    using published_result_is_final [OF rev, of fake_fhe ?txs 7 "[]" "[]" 2 8] by blast
  have reg': "requestToAggregationId (run fake_fhe ?txs st_revealed) 7 = 1"
    by (rule run_keeps_request [OF reg])
  have "handleAggregationResult fake_fhe 7 [0, 0, 0, 1, 0, 0, 0, 2] [7]
          (run fake_fhe ?txs st_revealed) = Inl (Require ''Already revealed'')"
    using same rev reg' by (simp add: handleAggregationResult_def del: run.simps)
  with same res rev show ?thesis by (simp del: run.simps)
qed

text \<open>
  C4 (as stated). The claim says that deactivating an id that was never created
  fails with an error of its own, distinct from the one for an already
  deactivated line. In the example one line was created (id 1) and deactivated;
  id 5 was never created, its slot is the all-zero record. Both calls revert
  with the same message.
\<close>

theorem unknown_line_not_distinguished_counterexample:
  "lineCount st_deactivated = 1 \<and>
   lineId (encryptedLines st_deactivated 1) = 1 \<and>
   \<not> isActive (encryptedLines st_deactivated 1) \<and>
   encryptedLines st_deactivated 5 = zeroLine \<and>
   deactivateCreditLine fake_fhe 1 5 st_deactivated = Inl (Require ''Line already inactive'') \<and>
   deactivateCreditLine fake_fhe 1 1 st_deactivated = Inl (Require ''Line already inactive'')"
  by (simp add: demo_defs fun_defs Let_def)

text \<open>
  C4 (amended). In a reachable state, \<open>deactivateCreditLine\<close> called by the
  aggregator reverts with ``Line already inactive'' both for an id that was never
  created (0, or above \<open>lineCount\<close>) and for a line that is already deactivated:
  the contract has one check, on the \<open>isActive\<close> flag, and the two cases are not
  distinguished.
\<close>

theorem deactivate_unknown_or_inactive:
  assumes "reachable fhe s" and "sender = aggregator s"
    and "lid = 0 \<or> lineCount s < lid \<or> \<not> isActive (encryptedLines s lid)"
  shows "deactivateCreditLine fhe sender lid s = Inl (Require ''Line already inactive'')"
proof -
  from assms(1) have "linesBounded s" by (rule reachable_linesBounded)
  with assms(3) have "\<not> isActive (encryptedLines s lid)"
    by (auto simp: linesBounded_def)
  with assms(2) show ?thesis by (simp add: deactivateCreditLine_def)
qed

theorem deactivate_unknown_or_inactive_witness:
  "reachable fake_fhe st_deactivated \<and> aggregator st_deactivated = 1 \<and>
   lineCount st_deactivated < 5 \<and> \<not> isActive (encryptedLines st_deactivated 1) \<and>
   deactivateCreditLine fake_fhe 1 5 st_deactivated = Inl (Require ''Line already inactive'') \<and>
   deactivateCreditLine fake_fhe 1 1 st_deactivated = Inl (Require ''Line already inactive'')"
proof -
  have agg: "1 = aggregator st_deactivated"
    and unknown: "5 = 0 \<or> lineCount st_deactivated < 5 \<or> \<not> isActive (encryptedLines st_deactivated 5)"
    and inactive: "1 = 0 \<or> lineCount st_deactivated < 1 \<or> \<not> isActive (encryptedLines st_deactivated 1)"
    and facts: "lineCount st_deactivated < 5" "\<not> isActive (encryptedLines st_deactivated 1)"
    by (simp_all add: demo_defs fun_defs Let_def)
  from deactivate_unknown_or_inactive [OF st_deactivated_reachable agg unknown]
    deactivate_unknown_or_inactive [OF st_deactivated_reachable agg inactive]
  show ?thesis using st_deactivated_reachable agg facts by simp
qed

text \<open>
  C5 (as stated). The claim says that \<open>getAggregationResult\<close>, called by the
  enterprise before a result is published, fails. Right after deployment the call
  returns the triple \<open>(0, 0, False)\<close>.
\<close>

theorem result_before_reveal_counterexample:
  "\<not> isRevealed (aggregatedResult st_deployed) \<and>
   getAggregationResult 2 st_deployed = Inr (0, 0, False)"
  by (simp add: demo_defs getAggregationResult_def)

text \<open>
  C5 (amended). In a reachable state \<open>getAggregationResult\<close> called by the
  enterprise never reverts: before a result is published it returns
  \<open>(0, 0, False)\<close>, and afterwards the published totals with the flag set.
\<close>

theorem getAggregationResult_by_enterprise:
  assumes "reachable fhe s" and "sender = enterprise s"
  shows "getAggregationResult sender s =
           (if isRevealed (aggregatedResult s)
            then Inr (totalAvailable (aggregatedResult s), totalUtilized (aggregatedResult s), True)
            else Inr (0, 0, False))"
  using reachable_unrevealedZero [OF assms(1)] assms(2)
  by (simp add: getAggregationResult_def unrevealedZero_def)

theorem getAggregationResult_by_enterprise_witness:
  "reachable fake_fhe st_requested \<and> reachable fake_fhe st_revealed \<and>
   getAggregationResult 2 st_requested = Inr (0, 0, False) \<and>
   getAggregationResult 2 st_revealed = Inr (800, 150, True)"
proof -
  have e1: "2 = enterprise st_requested" and e2: "2 = enterprise st_revealed"
    and r1: "\<not> isRevealed (aggregatedResult st_requested)"
    and r2: "aggregatedResult st_revealed =
      \<lparr>totalAvailable = 800, totalUtilized = 150, isRevealed = True\<rparr>"
    by (simp_all add: demo_defs fun_defs Let_def)
  from getAggregationResult_by_enterprise [OF st_requested_reachable e1]
    getAggregationResult_by_enterprise [OF st_revealed_reachable e2]
  show ?thesis using st_requested_reachable st_revealed_reachable r1 r2 by simp
qed

text \<open>
  C6. When a call of \<open>handleAggregationResult\<close> with \<open>(requestId, cleartexts,
  proof)\<close> is accepted, it publishes the result, and a second call with the same
  arguments reverts with ``Already revealed'': as a transaction it leaves the
  storage, and so the published result, as the first call left it.
\<close>

theorem callback_twice_publishes_once:
  assumes "handleAggregationResult fhe rid ct pf s = Inr s1"
  shows "isRevealed (aggregatedResult s1) \<and>
         handleAggregationResult fhe rid ct pf s1 = Inl (Require ''Already revealed'') \<and>
         transact fhe (e, HandleAggregationResult rid ct pf) s1 = s1"
proof -
  from assms have reg: "requestToAggregationId s1 rid = 1" and rev: "isRevealed (aggregatedResult s1)"
    by (auto simp: handleAggregationResult_def split: if_splits option.splits list.splits)
  then have "handleAggregationResult fhe rid ct pf s1 = Inl (Require ''Already revealed'')"
    by (simp add: handleAggregationResult_def)
  with rev show ?thesis by (simp add: transact_def)
qed

theorem callback_twice_publishes_once_witness:
  "handleAggregationResult fake_fhe 7 payload_800_150 [7] st_requested = Inr st_revealed \<and>
   aggregatedResult st_revealed = \<lparr>totalAvailable = 800, totalUtilized = 150, isRevealed = True\<rparr> \<and>
   handleAggregationResult fake_fhe 7 payload_800_150 [7] st_revealed =
     Inl (Require ''Already revealed'') \<and>
   transact fake_fhe (by_stranger, HandleAggregationResult 7 payload_800_150 [7]) st_revealed =
     st_revealed"
proof -
  have first: "handleAggregationResult fake_fhe 7 payload_800_150 [7] st_requested = Inr st_revealed"
    and res: "aggregatedResult st_revealed =
      \<lparr>totalAvailable = 800, totalUtilized = 150, isRevealed = True\<rparr>"
    by (simp_all add: demo_defs fun_defs Let_def)
  from callback_twice_publishes_once [OF first, of by_stranger] first res
  show ?thesis by simp
qed

text \<open>
  C7. A call that reverts changes nothing: the storage after the transaction
  (records, both accumulators, the stored result and the registered request
  ids) is the storage before it. In particular, after a callback that reverted
  in the signature check, the same callback with a proof that verifies is
  accepted as it would have been before.
\<close>

theorem reverted_call_changes_nothing:
  assumes "dispatch fhe e c s = Inl err"
  shows "transact fhe (e, c) s = s \<and>
         (c = HandleAggregationResult rid ct pf \<and> err = CheckSignaturesReverted \<longrightarrow>
            requestToAggregationId (transact fhe (e, c) s) rid = 1 \<and>
            \<not> isRevealed (aggregatedResult (transact fhe (e, c) s)) \<and>
            (\<forall>pf' r0 r1 rest.
               FHE_checkSignatures fhe rid ct pf' \<and> abi_decode fhe ct = Some (r0 # r1 # rest) \<longrightarrow>
               handleAggregationResult fhe rid ct pf' (transact fhe (e, c) s) =
                 Inr (s\<lparr>aggregatedResult :=
                        \<lparr>totalAvailable = r0, totalUtilized = r1, isRevealed = True\<rparr>\<rparr>)))"
proof -
  from assms have same: "transact fhe (e, c) s = s"
    by (simp add: transact_def)
  have "requestToAggregationId s rid = 1 \<and> \<not> isRevealed (aggregatedResult s)"
    if "c = HandleAggregationResult rid ct pf" and "err = CheckSignaturesReverted"
    using assms that
    by (auto simp: handleAggregationResult_def split: if_splits option.splits list.splits)
  with same show ?thesis
    by (auto simp: handleAggregationResult_def)
qed

theorem reverted_call_changes_nothing_witness:
  "dispatch fake_fhe by_aggregator (DeactivateCreditLine 1) st_deactivated =
     Inl (Require ''Line already inactive'') \<and>
   transact fake_fhe (by_aggregator, DeactivateCreditLine 1) st_deactivated = st_deactivated \<and>
   dispatch fake_fhe by_stranger (HandleAggregationResult 7 payload_800_150 [3]) st_requested =
     Inl CheckSignaturesReverted \<and>
   transact fake_fhe (by_stranger, HandleAggregationResult 7 payload_800_150 [3]) st_requested =
     st_requested \<and>
   handleAggregationResult fake_fhe 7 payload_800_150 [7]
     (transact fake_fhe (by_stranger, HandleAggregationResult 7 payload_800_150 [3]) st_requested) =
     Inr (st_requested\<lparr>aggregatedResult :=
            \<lparr>totalAvailable = 800, totalUtilized = 150, isRevealed = True\<rparr>\<rparr>)"
proof -
  have d: "dispatch fake_fhe by_aggregator (DeactivateCreditLine 1) st_deactivated =
      Inl (Require ''Line already inactive'')"
    and h: "dispatch fake_fhe by_stranger (HandleAggregationResult 7 payload_800_150 [3]) st_requested =
      Inl CheckSignaturesReverted"
    and v: "FHE_checkSignatures fake_fhe 7 payload_800_150 [7]"
      "abi_decode fake_fhe payload_800_150 = Some (800 # 150 # [])"
    by (simp_all add: demo_defs fun_defs Let_def)
  have t1: "transact fake_fhe (by_aggregator, DeactivateCreditLine 1) st_deactivated =
      st_deactivated"
    using reverted_call_changes_nothing [OF d, of 0 "[]" "[]"] by blast
  note r = reverted_call_changes_nothing [OF h, of 7 payload_800_150 "[3]"]
  from r have t2: "transact fake_fhe
      (by_stranger, HandleAggregationResult 7 payload_800_150 [3]) st_requested = st_requested"
    by blast
  from r v have t3: "handleAggregationResult fake_fhe 7 payload_800_150 [7]
      (transact fake_fhe (by_stranger, HandleAggregationResult 7 payload_800_150 [3]) st_requested) =
      Inr (st_requested\<lparr>aggregatedResult :=
             \<lparr>totalAvailable = 800, totalUtilized = 150, isRevealed = True\<rparr>\<rparr>)"
    by blast
  from d h t1 t2 t3 show ?thesis by blast
qed

text \<open>
  C8. From the freshly deployed contract, with a capability that is homomorphic
  for \<open>dec\<close>: the aggregator adds line A, whose ciphertexts decrypt to (500, 100),
  and line B, whose ciphertexts decrypt to (300, 50); the enterprise requests the
  reveal; the accumulators then decrypt to (800, 150). A callback for that request
  whose proof verifies and whose cleartexts decode to (800, 150) is accepted, and
  \<open>getAggregationResult\<close> by the enterprise returns \<open>(800, 150, True)\<close>.
\<close>

theorem two_lines_reveal_scenario:
  assumes "homomorphic fhe dec"
    and "dec availableA = 500" and "dec utilizedA = 100"
    and "dec availableB = 300" and "dec utilizedB = 50"
    and "FHE_checkSignatures fhe rid ct pf" and "abi_decode fhe ct = Some [800, 150]"
  shows "\<exists>s1 s2 s3 s4.
           addEncryptedCreditLine fhe agg t1 bankA availableA utilizedA (constructor fhe agg ent)
             = Inr s1 \<and>
           addEncryptedCreditLine fhe agg t2 bankB availableB utilizedB s1 = Inr s2 \<and>
           requestAggregation ent rid s2 = Inr s3 \<and>
           dec (encryptedTotalAvailable s3) = 800 \<and> dec (encryptedTotalUtilized s3) = 150 \<and>
           handleAggregationResult fhe rid ct pf s3 = Inr s4 \<and>
           getAggregationResult ent s4 = Inr (800, 150, True)"
  using assms
  by (simp add: homomorphic_def constructor_def fun_defs getAggregationResult_def Let_def)

theorem two_lines_reveal_scenario_witness:
  "homomorphic fake_fhe fake_dec \<and>
   fake_dec 500 = 500 \<and> fake_dec 100 = 100 \<and> fake_dec 300 = 300 \<and> fake_dec 50 = 50 \<and>
   FHE_checkSignatures fake_fhe 7 payload_800_150 [7] \<and>
   abi_decode fake_fhe payload_800_150 = Some [800, 150] \<and>
   (\<exists>s1 s2 s3 s4.
      addEncryptedCreditLine fake_fhe 1 1000 11 500 100 (constructor fake_fhe 1 2) = Inr s1 \<and>
      addEncryptedCreditLine fake_fhe 1 1000 12 300 50 s1 = Inr s2 \<and>
      requestAggregation 2 7 s2 = Inr s3 \<and>
      fake_dec (encryptedTotalAvailable s3) = 800 \<and> fake_dec (encryptedTotalUtilized s3) = 150 \<and>
      handleAggregationResult fake_fhe 7 payload_800_150 [7] s3 = Inr s4 \<and>
      getAggregationResult 2 s4 = Inr (800, 150, True))"
proof -
  have d: "fake_dec 500 = 500" "fake_dec 100 = 100" "fake_dec 300 = 300" "fake_dec 50 = 50"
    by (simp_all add: fake_dec_def)
  have v: "FHE_checkSignatures fake_fhe 7 payload_800_150 [7]"
    and p: "abi_decode fake_fhe payload_800_150 = Some [800, 150]"
    by (simp_all add: fake_fhe_def payload_800_150_def)
  from two_lines_reveal_scenario [OF fake_homomorphic d v p, of 1 1000 11 2 1000 12]
  show ?thesis using fake_homomorphic d v p by blast
qed

text \<open>
  C9. The role checks fail closed. A caller other than the aggregator gets
  ``Caller not authorized'' from \<open>addEncryptedCreditLine\<close> and
  \<open>deactivateCreditLine\<close>; a caller other than the enterprise gets ``Enterprise
  only'' from \<open>requestAggregation\<close>, \<open>getAggregationResult\<close>,
  \<open>getCreditLineInfo\<close> and \<open>transferEnterpriseOwnership\<close>. The transaction
  leaves the storage unchanged (the two getters are views and have no storage
  effect at all).
\<close>

theorem role_checks_fail_closed:
  "(msg_sender e \<noteq> aggregator s \<longrightarrow>
      addEncryptedCreditLine fhe (msg_sender e) (block_timestamp e) bank a u s =
        Inl (Require ''Caller not authorized'') \<and>
      deactivateCreditLine fhe (msg_sender e) lid s = Inl (Require ''Caller not authorized'') \<and>
      transact fhe (e, AddEncryptedCreditLine bank a u) s = s \<and>
      transact fhe (e, DeactivateCreditLine lid) s = s) \<and>
   (msg_sender e \<noteq> enterprise s \<longrightarrow>
      requestAggregation (msg_sender e) (decryption_requestId e) s =
        Inl (Require ''Enterprise only'') \<and>
      getAggregationResult (msg_sender e) s = Inl (Require ''Enterprise only'') \<and>
      getCreditLineInfo (msg_sender e) lid s = Inl (Require ''Enterprise only'') \<and>
      transferEnterpriseOwnership (msg_sender e) newEnterprise s =
        Inl (Require ''Enterprise only'') \<and>
      transact fhe (e, RequestAggregation) s = s \<and>
      transact fhe (e, TransferEnterpriseOwnership newEnterprise) s = s)"
  by (simp add: fun_defs getAggregationResult_def getCreditLineInfo_def transact_def)

theorem role_checks_fail_closed_witness:
  "msg_sender by_stranger \<noteq> aggregator st_two_lines \<and>
   msg_sender by_stranger \<noteq> enterprise st_two_lines \<and>
   addEncryptedCreditLine fake_fhe 9 3000 13 40 4 st_two_lines =
     Inl (Require ''Caller not authorized'') \<and>
   deactivateCreditLine fake_fhe 9 1 st_two_lines = Inl (Require ''Caller not authorized'') \<and>
   requestAggregation 9 0 st_two_lines = Inl (Require ''Enterprise only'') \<and>
   getAggregationResult 9 st_two_lines = Inl (Require ''Enterprise only'') \<and>
   getCreditLineInfo 9 1 st_two_lines = Inl (Require ''Enterprise only'') \<and>
   transferEnterpriseOwnership 9 9 st_two_lines = Inl (Require ''Enterprise only'') \<and>
   transact fake_fhe (by_stranger, RequestAggregation) st_two_lines = st_two_lines \<and>
   transact fake_fhe (by_stranger, TransferEnterpriseOwnership 9) st_two_lines = st_two_lines \<and>
   transact fake_fhe (by_stranger, AddEncryptedCreditLine 13 40 4) st_two_lines = st_two_lines \<and>
   transact fake_fhe (by_stranger, DeactivateCreditLine 1) st_two_lines = st_two_lines"
proof -
  have na: "msg_sender by_stranger \<noteq> aggregator st_two_lines"
    and ne: "msg_sender by_stranger \<noteq> enterprise st_two_lines"
    and env: "msg_sender by_stranger = 9" "block_timestamp by_stranger = 3000"
      "decryption_requestId by_stranger = 0"
    by (simp_all add: demo_defs fun_defs Let_def)
  note r = role_checks_fail_closed [of by_stranger st_two_lines fake_fhe 13 40 4 1 9]
  note for_aggregator = r [THEN conjunct1, THEN mp, OF na]
    and for_enterprise = r [THEN conjunct2, THEN mp, OF ne]
  from for_aggregator for_enterprise na ne show ?thesis
    unfolding env by simp
qed

text \<open>
  C10 (as stated). The claim says that, with several requests outstanding, the
  first callback that passes proof verification publishes the result and every
  later callback fails with ``Already revealed''. In the example the requests 7
  and 8 are outstanding and nothing is published. A callback for request 7 whose
  proof verifies, but whose cleartexts decode to a single value, reverts on
  \<^verbatim>\<open>results[1]\<close>: nothing is published and the storage is unchanged. The later
  callback for request 8 is then accepted, not answered with ``Already
  revealed''.
\<close>

theorem verified_callback_not_published_counterexample:
  "requestToAggregationId st_two_requests 7 = 1 \<and>
   requestToAggregationId st_two_requests 8 = 1 \<and>
   \<not> isRevealed (aggregatedResult st_two_requests) \<and>
   FHE_checkSignatures fake_fhe 7 [0, 0, 0, 1] [7] \<and>
   abi_decode fake_fhe [0, 0, 0, 1] = Some [1] \<and>
   handleAggregationResult fake_fhe 7 [0, 0, 0, 1] [7] st_two_requests = Inl (Panic 0x32) \<and>
   transact fake_fhe (by_stranger, HandleAggregationResult 7 [0, 0, 0, 1] [7]) st_two_requests =
     st_two_requests \<and>
   handleAggregationResult fake_fhe 8 payload_800_150 [8] st_two_requests =
     Inr (st_two_requests\<lparr>aggregatedResult :=
            \<lparr>totalAvailable = 800, totalUtilized = 150, isRevealed = True\<rparr>\<rparr>)"
  by (simp add: st_two_requests_def demo_defs fun_defs Let_def)

text \<open>
  C10 (amended). \<open>requestAggregation\<close> registers the request id and nothing ever
  clears it: after any sequence of transactions the id is still registered and
  \<open>handleAggregationResult\<close> never answers ``Invalid request'' for it. With a second
  request outstanding as well, a callback for either of them, in a state with no
  published result, whose proof verifies and whose cleartexts decode to at least
  two values, is accepted and publishes. Once a callback has been accepted,
  every later callback for either request, whatever its cleartexts and proof,
  reverts with ``Already revealed''.
\<close>

theorem issued_request_ids_stay_valid:
  assumes "requestAggregation c1 rid1 sa = Inr sb"
  shows "requestToAggregationId (run fhe txs sb) rid1 = 1 \<and>
         handleAggregationResult fhe rid1 ct pf (run fhe txs sb) \<noteq> Inl (Require ''Invalid request'') \<and>
         (requestAggregation c2 rid2 (run fhe txsA sb) = Inr sc \<longrightarrow>
            (\<forall>rid \<in> {rid1, rid2}.
               requestToAggregationId (run fhe txsB sc) rid = 1 \<and>
               (\<not> isRevealed (aggregatedResult (run fhe txsB sc)) \<and>
                FHE_checkSignatures fhe rid ct pf \<and> abi_decode fhe ct = Some (r0 # r1 # rest) \<longrightarrow>
                  handleAggregationResult fhe rid ct pf (run fhe txsB sc) =
                    Inr ((run fhe txsB sc)\<lparr>aggregatedResult :=
                           \<lparr>totalAvailable = r0, totalUtilized = r1, isRevealed = True\<rparr>\<rparr>)) \<and>
               (\<forall>ridF ctF pfF sd.
                  handleAggregationResult fhe ridF ctF pfF (run fhe txsB sc) = Inr sd \<longrightarrow>
                    isRevealed (aggregatedResult sd) \<and>
                    handleAggregationResult fhe rid ct pf (run fhe txs sd) =
                      Inl (Require ''Already revealed''))))"
proof -
  have reg1: "requestToAggregationId sb rid1 = 1"
    by (simp add: request_success [OF assms])
  have kept1: "requestToAggregationId (run fhe ts sb) rid1 = 1" for ts
    using reg1 by (rule run_keeps_request)
  have valid1: "handleAggregationResult fhe rid1 ct pf (run fhe txs sb)
      \<noteq> Inl (Require ''Invalid request'')"
    by (rule callback_registered [OF kept1])
  have later: "requestToAggregationId (run fhe txsB sc) rid = 1 \<and>
      (\<not> isRevealed (aggregatedResult (run fhe txsB sc)) \<and>
       FHE_checkSignatures fhe rid ct pf \<and> abi_decode fhe ct = Some (r0 # r1 # rest) \<longrightarrow>
         handleAggregationResult fhe rid ct pf (run fhe txsB sc) =
           Inr ((run fhe txsB sc)\<lparr>aggregatedResult :=
                  \<lparr>totalAvailable = r0, totalUtilized = r1, isRevealed = True\<rparr>\<rparr>)) \<and>
      (\<forall>ridF ctF pfF sd.
         handleAggregationResult fhe ridF ctF pfF (run fhe txsB sc) = Inr sd \<longrightarrow>
           isRevealed (aggregatedResult sd) \<and>
           handleAggregationResult fhe rid ct pf (run fhe txs sd) =
             Inl (Require ''Already revealed''))"
    if req2: "requestAggregation c2 rid2 (run fhe txsA sb) = Inr sc" and rid: "rid \<in> {rid1, rid2}"
    for rid
  proof -
    have "requestToAggregationId sc rid = 1"
      using rid kept1 [of txsA] by (auto simp: request_success [OF req2])
    then have reg: "requestToAggregationId (run fhe txsB sc) rid = 1"
      by (rule run_keeps_request)
    have after: "isRevealed (aggregatedResult sd) \<and>
        handleAggregationResult fhe rid ct pf (run fhe txs sd) = Inl (Require ''Already revealed'')"
      if cb: "handleAggregationResult fhe ridF ctF pfF (run fhe txsB sc) = Inr sd"
      for ridF ctF pfF sd
    proof -
      have rev: "isRevealed (aggregatedResult sd)"
        by (rule callback_success(1) [OF cb])
      have "requestToAggregationId sd rid = 1"
        using reg by (simp add: callback_success(2) [OF cb])
      then have "requestToAggregationId (run fhe txs sd) rid = 1"
        by (rule run_keeps_request)
      moreover have "isRevealed (aggregatedResult (run fhe txs sd))"
        using rev by (simp add: run_keeps_revealed)
      ultimately have "handleAggregationResult fhe rid ct pf (run fhe txs sd) =
          Inl (Require ''Already revealed'')"
        by (rule callback_after_reveal)
      with rev show ?thesis by (rule conjI)
    qed
    show ?thesis
    proof (intro conjI impI allI)
      show "requestToAggregationId (run fhe txsB sc) rid = 1" by (rule reg)
    next
      assume "\<not> isRevealed (aggregatedResult (run fhe txsB sc)) \<and>
        FHE_checkSignatures fhe rid ct pf \<and> abi_decode fhe ct = Some (r0 # r1 # rest)"
      then show "handleAggregationResult fhe rid ct pf (run fhe txsB sc) =
          Inr ((run fhe txsB sc)\<lparr>aggregatedResult :=
                 \<lparr>totalAvailable = r0, totalUtilized = r1, isRevealed = True\<rparr>\<rparr>)"
        using callback_accepted [OF reg] by blast
    next
      fix ridF ctF pfF sd
      assume "handleAggregationResult fhe ridF ctF pfF (run fhe txsB sc) = Inr sd"
      then show "isRevealed (aggregatedResult sd)" using after by blast
    next
      fix ridF ctF pfF sd
      assume "handleAggregationResult fhe ridF ctF pfF (run fhe txsB sc) = Inr sd"
      then show "handleAggregationResult fhe rid ct pf (run fhe txs sd) =
          Inl (Require ''Already revealed'')"
        using after by blast
    qed
  qed
  show ?thesis
  proof (intro conjI)
    show "requestToAggregationId (run fhe txs sb) rid1 = 1" by (rule kept1)
    show "handleAggregationResult fhe rid1 ct pf (run fhe txs sb)
      \<noteq> Inl (Require ''Invalid request'')" by (rule valid1)
    show "requestAggregation c2 rid2 (run fhe txsA sb) = Inr sc \<longrightarrow>
      (\<forall>rid \<in> {rid1, rid2}.
         requestToAggregationId (run fhe txsB sc) rid = 1 \<and>
         (\<not> isRevealed (aggregatedResult (run fhe txsB sc)) \<and>
          FHE_checkSignatures fhe rid ct pf \<and> abi_decode fhe ct = Some (r0 # r1 # rest) \<longrightarrow>
            handleAggregationResult fhe rid ct pf (run fhe txsB sc) =
              Inr ((run fhe txsB sc)\<lparr>aggregatedResult :=
                     \<lparr>totalAvailable = r0, totalUtilized = r1, isRevealed = True\<rparr>\<rparr>)) \<and>
         (\<forall>ridF ctF pfF sd.
            handleAggregationResult fhe ridF ctF pfF (run fhe txsB sc) = Inr sd \<longrightarrow>
              isRevealed (aggregatedResult sd) \<and>
              handleAggregationResult fhe rid ct pf (run fhe txs sd) =
                Inl (Require ''Already revealed'')))"
      by (intro impI ballI, rule later)
  qed
qed

theorem issued_request_ids_stay_valid_witness:
  "requestAggregation 2 7 st_two_lines = Inr st_requested \<and>
   requestToAggregationId
     (run fake_fhe
        [(by_aggregator, DeactivateCreditLine 1), (by_enterprise_again, RequestAggregation)]
        st_requested) 7 = 1 \<and>
   handleAggregationResult fake_fhe 7 payload_800_150 [7]
     (run fake_fhe
        [(by_aggregator, DeactivateCreditLine 1), (by_enterprise_again, RequestAggregation)]
        st_requested) \<noteq> Inl (Require ''Invalid request'') \<and>
   requestAggregation 2 8
     (run fake_fhe [(by_aggregator, AddEncryptedCreditLine 13 40 4)] st_requested) =
     Inr st_line_then_request \<and>
   handleAggregationResult fake_fhe 8 payload_800_150 [8]
     (run fake_fhe [(by_stranger, HandleAggregationResult 7 [0, 0, 0, 1] [7])]
        st_line_then_request) =
     Inr ((run fake_fhe [(by_stranger, HandleAggregationResult 7 [0, 0, 0, 1] [7])]
             st_line_then_request)\<lparr>aggregatedResult :=
            \<lparr>totalAvailable = 800, totalUtilized = 150, isRevealed = True\<rparr>\<rparr>) \<and>
   FHE_checkSignatures fake_fhe 7 payload_800_150 [7] \<and>
   handleAggregationResult fake_fhe 7 payload_800_150 [7]
     (run fake_fhe
        [(by_aggregator, DeactivateCreditLine 1), (by_enterprise_again, RequestAggregation)]
        ((run fake_fhe [(by_stranger, HandleAggregationResult 7 [0, 0, 0, 1] [7])]
            st_line_then_request)\<lparr>aggregatedResult :=
           \<lparr>totalAvailable = 800, totalUtilized = 150, isRevealed = True\<rparr>\<rparr>)) =
     Inl (Require ''Already revealed'')"
proof -
  let ?later = "[(by_aggregator, DeactivateCreditLine 1), (by_enterprise_again, RequestAggregation)]"
  let ?between = "[(by_aggregator, AddEncryptedCreditLine 13 40 4)]"
  let ?failed = "[(by_stranger, HandleAggregationResult 7 [0, 0, 0, 1] [7])]"
  have first: "requestAggregation 2 7 st_two_lines = Inr st_requested"
    and second: "requestAggregation 2 8 (run fake_fhe ?between st_requested) =
      Inr st_line_then_request"
    and unrevealed: "\<not> isRevealed (aggregatedResult (run fake_fhe ?failed st_line_then_request))"
    and valid8: "FHE_checkSignatures fake_fhe 8 payload_800_150 [8]"
    and valid7: "FHE_checkSignatures fake_fhe 7 payload_800_150 [7]"
    and decoded: "abi_decode fake_fhe payload_800_150 = Some (800 # 150 # [])"
    by (simp_all add: st_line_then_request_def demo_defs fun_defs Let_def)
  have in7: "(7 :: uint256) \<in> {7, 8}" and in8: "(8 :: uint256) \<in> {7, 8}"
    by simp_all
  note inst8 = issued_request_ids_stay_valid [OF first, where fhe = fake_fhe and txs = ?later
      and ct = payload_800_150 and pf = "[8]" and ?c2.0 = 2 and ?rid2.0 = 8 and txsA = ?between
      and sc = st_line_then_request and txsB = ?failed
      and ?r0.0 = 800 and ?r1.0 = 150 and rest = "[]"]
  note inst7 = issued_request_ids_stay_valid [OF first, where fhe = fake_fhe and txs = ?later
      and ct = payload_800_150 and pf = "[7]" and ?c2.0 = 2 and ?rid2.0 = 8 and txsA = ?between
      and sc = st_line_then_request and txsB = ?failed
      and ?r0.0 = 800 and ?r1.0 = 150 and rest = "[]"]
  note for8 = inst8 [THEN conjunct2, THEN conjunct2, THEN mp, OF second, THEN bspec, OF in8]
  note for7 = inst7 [THEN conjunct2, THEN conjunct2, THEN mp, OF second, THEN bspec, OF in7]
  have kept: "requestToAggregationId (run fake_fhe ?later st_requested) 7 = 1"
    by (rule inst7 [THEN conjunct1])
  have known: "handleAggregationResult fake_fhe 7 payload_800_150 [7]
      (run fake_fhe ?later st_requested) \<noteq> Inl (Require ''Invalid request'')"
    by (rule inst7 [THEN conjunct2, THEN conjunct1])
  have accepted: "handleAggregationResult fake_fhe 8 payload_800_150 [8]
      (run fake_fhe ?failed st_line_then_request) =
      Inr ((run fake_fhe ?failed st_line_then_request)\<lparr>aggregatedResult :=
             \<lparr>totalAvailable = 800, totalUtilized = 150, isRevealed = True\<rparr>\<rparr>)"
    by (rule for8 [THEN conjunct2, THEN conjunct1, THEN mp])
       (intro conjI unrevealed valid8 decoded)
  have late: "handleAggregationResult fake_fhe 7 payload_800_150 [7]
      (run fake_fhe ?later
        ((run fake_fhe ?failed st_line_then_request)\<lparr>aggregatedResult :=
           \<lparr>totalAvailable = 800, totalUtilized = 150, isRevealed = True\<rparr>\<rparr>)) =
      Inl (Require ''Already revealed'')"
    by (rule for7 [THEN conjunct2, THEN conjunct2, THEN spec, THEN spec, THEN spec, THEN spec,
          THEN mp, OF accepted, THEN conjunct2])
  show ?thesis
    by (intro conjI first kept known second accepted valid7 late)
qed

end
